theory Spec2Isabelle
  imports Main "HOL-Library.AList" "HOL-Library.Word"
begin

section \<open>Engine values and the counted heap\<close>

text \<open>
  The binding of \<^verbatim>\<open>quickjs.cpp\<close> sits on the C interface of the scripting engine. The
  engine itself is not part of the two source files, so its primitives are modelled here,
  each one marked as such; the functions of \<^verbatim>\<open>qjs::Value\<close>, \<^verbatim>\<open>qjs::Runtime\<close> and
  \<^verbatim>\<open>qjs::Context\<close> further down are transcribed from the source.

  The context argument of an engine primitive is left out where the model of the primitive
  does not depend on it.

  An engine value is either an immediate or a reference to a counted heap object.
\<close>

type_synonym addr = nat

datatype JSValue =
    JS_UNDEFINED
  | JS_NULL
  | JS_EXCEPTION
  | JS_BOOL bool
  | JS_INT int
  | JS_STRING string
  | JS_OBJECT addr

datatype prop_key = Name string | Index "32 word"

record JSObject =
  ref_count :: nat
  class_id :: nat
  extensible :: bool
  props :: "(prop_key \<times> JSValue) list"
  opaque :: "nat option"
  func_data :: "JSValue list"
  func_magic :: int
  number_value :: "int option"
  string_value :: "string option"

text \<open>
  Undefined behaviour is recorded instead of being given a meaning: a duplicate or a
  release that reaches an object already destroyed, a second free of a runtime, a call
  through a null or dangling closure pointer, a host string built from a null buffer.
  Pointers to contexts and runtimes are numbers, 0 being the null pointer.
\<close>

datatype fault = Use_After_Free addr | Runtime_Freed_Again nat | Null_Closure | Null_String

type_synonym Function = "JSValue \<Rightarrow> JSValue list \<Rightarrow> int \<Rightarrow> JSValue"

text \<open>
  The binding registers one native class only, so a class definition names its two
  callbacks by tag: the finalizer and the mark callback written in the constructor of
  \<^verbatim>\<open>qjs::Context\<close>.
\<close>

datatype finalizer_fn = Closure_Finalizer
datatype mark_fn = Empty_Mark

record JSClassDef =
  class_name :: string
  finalizer :: "finalizer_fn option"
  gc_mark :: "mark_fn option"

record world =
  heap :: "(addr \<times> JSObject) list"
  next_addr :: addr
  current_exception :: JSValue
  faults :: "fault list"
  closures :: "(nat \<times> Function) list"
  next_closure :: nat
  deleted :: "nat list"
  invoked :: "(nat \<times> JSValue \<times> JSValue list \<times> int) list"
  closure_class :: nat
  js_class_id_alloc :: nat
  class_array :: "(nat \<times> nat \<times> JSClassDef) list"
  context_runtime :: "nat \<Rightarrow> nat"
  context_refs :: "(nat \<times> nat) list"
  next_context :: nat
  next_runtime :: nat
  live_runtimes :: "nat list"
  freed_runtimes :: "nat list"

text \<open>
  Modelled from the spec: the engine's duplicate primitive, which is not under src/.
  "Copy-construction/assignment increments the engine refcount (duplicate reference)".
  Only heap objects are counted; the value itself is handed back.
\<close>

definition JS_DupValue :: "world \<Rightarrow> JSValue \<Rightarrow> JSValue \<times> world" where
  "JS_DupValue w v =
     (case v of
        JS_OBJECT a \<Rightarrow>
          (case map_of (heap w) a of
             None \<Rightarrow> (v, w\<lparr>faults := faults w @ [Use_After_Free a]\<rparr>)
           | Some ob \<Rightarrow>
               (v, w\<lparr>heap := AList.update a (ob\<lparr>ref_count := ref_count ob + 1\<rparr>) (heap w)\<rparr>))
      | _ \<Rightarrow> (v, w))"

text \<open>
  Modelled from the spec: the opaque slot of a native instance, read back under the class
  id it was created with (null for any other value).
\<close>

definition JS_GetOpaque :: "world \<Rightarrow> JSValue \<Rightarrow> nat \<Rightarrow> nat option" where
  "JS_GetOpaque w val cid =
     (case val of
        JS_OBJECT a \<Rightarrow>
          (case map_of (heap w) a of
             None \<Rightarrow> None
           | Some ob \<Rightarrow> if class_id ob = cid then opaque ob else None)
      | _ \<Rightarrow> None)"

text \<open>
  The host's \<^verbatim>\<open>delete ptr\<close> on a heap-allocated closure: deleting the null pointer does
  nothing; every other deletion is logged, so a closure deleted twice shows twice.
\<close>

definition delete_Function :: "world \<Rightarrow> nat option \<Rightarrow> world" where
  "delete_Function w ptr =
     (case ptr of
        None \<Rightarrow> w
      | Some p \<Rightarrow> w\<lparr>closures := AList.delete p (closures w), deleted := deleted w @ [p]\<rparr>)"

text \<open>The finalizer lambda of the carrier class (quickjs.cpp, lines 181-185).\<close>

definition closure_finalizer :: "world \<Rightarrow> JSValue \<Rightarrow> world" where
  "closure_finalizer w val =
     (let opaque = JS_GetOpaque w val (closure_class w);
          ptr = opaque
      in delete_Function w ptr)"

text \<open>
  Modelled from the spec: when the engine destroys an instance of a registered native
  class it invokes that class's finalizer on it.
\<close>

definition run_finalizer :: "world \<Rightarrow> addr \<Rightarrow> JSObject \<Rightarrow> world" where
  "run_finalizer w a ob =
     (case find (\<lambda>(rt, cid, d). cid = class_id ob) (class_array w) of
        None \<Rightarrow> w
      | Some (rt, cid, d) \<Rightarrow>
          (case finalizer d of
             None \<Rightarrow> w
           | Some Closure_Finalizer \<Rightarrow> closure_finalizer w (JS_OBJECT a)))"

definition children :: "JSObject \<Rightarrow> JSValue list" where
  "children ob = map snd (props ob) @ func_data ob"

lemma heap_run_finalizer [simp]: "heap (run_finalizer w a ob) = heap w"
  by (simp add: run_finalizer_def closure_finalizer_def delete_Function_def
      split: option.splits prod.splits finalizer_fn.splits)

lemma length_update_present:
  "map_of h a = Some x \<Longrightarrow> length (AList.update a y h) = length h"
  by (induction h) (auto split: if_splits)

lemma length_delete_present:
  "map_of h a = Some x \<Longrightarrow> length (AList.delete a h) < length h"
  by (induction h) (auto split: if_splits simp: less_Suc_eq_le AList.delete_eq)

text \<open>
  Modelled from the spec: the engine's release primitive. "Destruction always decrements
  (release)"; an object whose count reaches zero is finalized and destroyed, and every
  reference it held is released in turn. The pending releases are kept as a work list.
\<close>

function free_values :: "world \<Rightarrow> JSValue list \<Rightarrow> world" where
  "free_values w [] = w"
| "free_values w (v # vs) =
     (case v of
        JS_OBJECT a \<Rightarrow>
          (case map_of (heap w) a of
             None \<Rightarrow> free_values (w\<lparr>faults := faults w @ [Use_After_Free a]\<rparr>) vs
           | Some ob \<Rightarrow>
               if 1 < ref_count ob
               then free_values
                      (w\<lparr>heap := AList.update a (ob\<lparr>ref_count := ref_count ob - 1\<rparr>) (heap w)\<rparr>) vs
               else (let w1 = run_finalizer w a ob
                     in free_values (w1\<lparr>heap := AList.delete a (heap w1)\<rparr>) (children ob @ vs)))
      | _ \<Rightarrow> free_values w vs)"
  by pat_completeness auto
termination
  by (relation "measures [\<lambda>(w, vs). length (heap w), \<lambda>(w, vs). length vs]")
     (auto simp: length_update_present length_delete_present)

declare free_values.simps [simp del]

definition JS_FreeValue :: "world \<Rightarrow> JSValue \<Rightarrow> world" where
  "JS_FreeValue w v = free_values w [v]"

section \<open>Handles\<close>

record Value =
  m_context :: nat
  m_value :: JSValue

text \<open>\<^verbatim>\<open>Value::Value(JSValue&& value, JSContext* context)\<close>: takes the reference over.\<close>

definition Value_new :: "JSValue \<Rightarrow> nat \<Rightarrow> Value" where
  "Value_new v context = \<lparr>m_context = context, m_value = v\<rparr>"

text \<open>\<^verbatim>\<open>Value::Value(const Value& val)\<close>.\<close>

definition Value_copy :: "world \<Rightarrow> Value \<Rightarrow> Value \<times> world" where
  "Value_copy w val =
     (let (v, w1) = JS_DupValue w (m_value val)
      in (\<lparr>m_context = m_context val, m_value = v\<rparr>, w1))"

text \<open>\<^verbatim>\<open>Value::~Value()\<close>.\<close>

definition Value_dtor :: "world \<Rightarrow> Value \<Rightarrow> world" where
  "Value_dtor w this = JS_FreeValue w (m_value this)"

text \<open>
  \<^verbatim>\<open>Value& Value::operator =(const Value& value)\<close>: both members of the target are
  overwritten; the target's old members are its first argument here.
\<close>

definition Value_assign :: "world \<Rightarrow> Value \<Rightarrow> Value \<Rightarrow> Value \<times> world" where
  "Value_assign w this val =
     (let (v, w1) = JS_DupValue w (m_value val)
      in (this\<lparr>m_context := m_context val, m_value := v\<rparr>, w1))"

text \<open>
  \<^verbatim>\<open>class Context\<close> has one member, the pointer to the engine context. The member
  \<^verbatim>\<open>m_context\<close> is called \<open>c_context\<close> here, since the handle has a member of the same name.
\<close>

record Context =
  c_context :: nat

section \<open>Creating objects\<close>

text \<open>
  Modelled from the spec: the engine's object creation. A fresh object is allocated at the
  next address, with one reference, which the caller owns. \<open>number_value\<close> and
  \<open>string_value\<close> are what the engine's numeric and string coercions give for the object
  (nothing where the coercion fails). A plain object converts to not-a-number, which the
  integer coercions turn into 0; an instance of a native class for which no prototype was
  set has no conversion at all.
\<close>

definition new_instance :: "world \<Rightarrow> nat \<Rightarrow> int option \<Rightarrow> string option \<Rightarrow> JSValue \<times> world" where
  "new_instance w cid nv sv =
     (let a = next_addr w;
          ob = \<lparr>ref_count = 1, class_id = cid, extensible = True, props = [],
                opaque = None, func_data = [], func_magic = 0,
                number_value = nv, string_value = sv\<rparr>
      in (JS_OBJECT a, w\<lparr>heap := heap w @ [(a, ob)], next_addr := a + 1\<rparr>))"

definition JS_NewObjectClass :: "world \<Rightarrow> nat \<Rightarrow> JSValue \<times> world" where
  "JS_NewObjectClass w cid = new_instance w cid None None"

definition JS_CLASS_OBJECT :: nat where
  "JS_CLASS_OBJECT = 1"

definition JS_NewObject :: "world \<Rightarrow> JSValue \<times> world" where
  "JS_NewObject w = new_instance w JS_CLASS_OBJECT (Some 0) (Some ''[object Object]'')"

text \<open>\<^verbatim>\<open>Context::new_object()\<close>.\<close>

definition new_object :: "world \<Rightarrow> Context \<Rightarrow> Value \<times> world" where
  "new_object w this =
     (let (value, w1) = JS_NewObject w
      in (Value_new value (c_context this), w1))"

text \<open>
  A thread that has not yet built a context, over an engine with an empty heap. The
  engine's class ids start above the ids of its built-in classes; address 0 of contexts
  and runtimes is the null pointer.
\<close>

definition JS_CLASS_INIT_COUNT :: nat where
  "JS_CLASS_INIT_COUNT = 56"

definition fresh_world :: world where
  "fresh_world =
     \<lparr>heap = [], next_addr = 0, current_exception = JS_NULL, faults = [],
      closures = [], next_closure = 0, deleted = [], invoked = [],
      closure_class = 0, js_class_id_alloc = JS_CLASS_INIT_COUNT, class_array = [],
      context_runtime = (\<lambda>c. 0), context_refs = [], next_context = 1, next_runtime = 1,
      live_runtimes = [], freed_runtimes = []\<rparr>"

text \<open>The count of an object, or nothing once it is destroyed.\<close>

definition count_of :: "world \<Rightarrow> JSValue \<Rightarrow> nat option" where
  "count_of w v =
     (case v of
        JS_OBJECT a \<Rightarrow> map_option ref_count (map_of (heap w) a)
      | _ \<Rightarrow> None)"

section \<open>Reference counts of handles\<close>

text \<open>\<open>n\<close> copies of a handle made by the copy constructor, one after the other.\<close>

fun copy_n :: "nat \<Rightarrow> world \<Rightarrow> Value \<Rightarrow> Value list \<times> world" where
  "copy_n 0 w h = ([], w)"
| "copy_n (Suc n) w h =
     (let (c, w1) = Value_copy w h;
          (cs, w2) = copy_n n w1 h
      in (c # cs, w2))"

text \<open>Handles destroyed in turn, as the elements of a vector are when the vector is.\<close>

fun destroy_all :: "world \<Rightarrow> Value list \<Rightarrow> world" where
  "destroy_all w [] = w"
| "destroy_all w (v # vs) = destroy_all (Value_dtor w v) vs"

text \<open>
  Two handles \<open>a\<close> and \<open>b\<close>, each the only owner of its object; then \<^verbatim>\<open>a = b;\<close> and
  both handles go out of scope.
\<close>

definition assign_over :: "world \<Rightarrow> Value \<times> Value \<times> world" where
  "assign_over w =
     (let (a, w1) = new_object w \<lparr>c_context = 1\<rparr>;
          (b, w2) = new_object w1 \<lparr>c_context = 1\<rparr>;
          (a', w3) = Value_assign w2 a b;
          w4 = Value_dtor w3 a';
          w5 = Value_dtor w4 b
      in (a, b, w5))"

section \<open>Runtimes\<close>

text \<open>
  Modelled from the spec: the engine creates a runtime instance and frees it. Every call
  of the free primitive is logged with its argument; freeing an instance that is not live
  is undefined behaviour.
\<close>

definition JS_NewRuntime :: "world \<Rightarrow> nat \<times> world" where
  "JS_NewRuntime w =
     (let rt = next_runtime w
      in (rt, w\<lparr>next_runtime := rt + 1, live_runtimes := rt # live_runtimes w\<rparr>))"

definition JS_FreeRuntime :: "world \<Rightarrow> nat \<Rightarrow> world" where
  "JS_FreeRuntime w rt =
     (if rt \<in> set (live_runtimes w)
      then w\<lparr>live_runtimes := removeAll rt (live_runtimes w),
             freed_runtimes := freed_runtimes w @ [rt]\<rparr>
      else w\<lparr>freed_runtimes := freed_runtimes w @ [rt],
             faults := faults w @ [Runtime_Freed_Again rt]\<rparr>)"

record Runtime_Ref =
  m_runtime :: nat

record Runtime =
  m_ref :: Runtime_Ref

text \<open>\<^verbatim>\<open>Runtime::Runtime(): m_ref(JS_NewRuntime())\<close>.\<close>

definition Runtime_new :: "world \<Rightarrow> Runtime \<times> world" where
  "Runtime_new w =
     (let (rt, w1) = JS_NewRuntime w
      in (\<lparr>m_ref = \<lparr>m_runtime = rt\<rparr>\<rparr>, w1))"

text \<open>
  \<^verbatim>\<open>Runtime(Runtime&&) = default;\<close> moves member by member. \<^verbatim>\<open>Runtime_Ref\<close> declares a
  defaulted copy constructor and no move constructor, so the member is copied: the new
  object gets the pointer and the moved-from object keeps it. The result is the new object
  and the moved-from one.
\<close>

definition Runtime_move :: "Runtime \<Rightarrow> Runtime \<times> Runtime" where
  "Runtime_move other = (\<lparr>m_ref = \<lparr>m_runtime = m_runtime (m_ref other)\<rparr>\<rparr>, other)"

text \<open>\<^verbatim>\<open>Runtime::~Runtime()\<close>.\<close>

definition Runtime_dtor :: "world \<Rightarrow> Runtime \<Rightarrow> world" where
  "Runtime_dtor w this = JS_FreeRuntime w (m_runtime (m_ref this))"

text \<open>
  \<^verbatim>\<open>{ Runtime a; Runtime b(std::move(a)); }\<close>: at the end of the scope \<open>b\<close> is destroyed
  first, then \<open>a\<close>.
\<close>

definition move_and_destroy :: "world \<Rightarrow> Runtime \<times> Runtime \<times> world" where
  "move_and_destroy w =
     (let (a, w1) = Runtime_new w;
          (b, a') = Runtime_move a;
          w2 = Runtime_dtor w1 b;
          w3 = Runtime_dtor w2 a'
      in (a', b, w3))"

section \<open>Contexts and the carrier class\<close>

text \<open>
  Modelled from the spec: contexts are counted by the engine and belong to a runtime.
\<close>

definition JS_NewContext :: "world \<Rightarrow> nat \<Rightarrow> nat \<times> world" where
  "JS_NewContext w rt =
     (let c = next_context w
      in (c, w\<lparr>next_context := c + 1,
                context_runtime := (context_runtime w)(c := rt),
                context_refs := AList.update c 1 (context_refs w)\<rparr>))"

definition JS_DupContext :: "world \<Rightarrow> nat \<Rightarrow> nat \<times> world" where
  "JS_DupContext w c =
     (case map_of (context_refs w) c of
        None \<Rightarrow> (c, w)
      | Some n \<Rightarrow> (c, w\<lparr>context_refs := AList.update c (n + 1) (context_refs w)\<rparr>))"

definition JS_FreeContext :: "world \<Rightarrow> nat \<Rightarrow> world" where
  "JS_FreeContext w c =
     (case map_of (context_refs w) c of
        None \<Rightarrow> w
      | Some n \<Rightarrow>
          if 1 < n then w\<lparr>context_refs := AList.update c (n - 1) (context_refs w)\<rparr>
          else w\<lparr>context_refs := AList.delete c (context_refs w)\<rparr>)"

definition JS_GetRuntime :: "world \<Rightarrow> nat \<Rightarrow> nat" where
  "JS_GetRuntime w c = context_runtime w c"

text \<open>
  Modelled from the spec: class ids. The engine hands out the next id of a process-wide
  counter when the variable it is given still holds 0, and gives back the variable's
  value otherwise; the caller's variable receives the result.
\<close>

definition JS_NewClassID :: "world \<Rightarrow> nat \<Rightarrow> nat \<times> world" where
  "JS_NewClassID w pclass_id =
     (if pclass_id = 0
      then (js_class_id_alloc w, w\<lparr>js_class_id_alloc := js_class_id_alloc w + 1\<rparr>)
      else (pclass_id, w))"

text \<open>
  Modelled from the spec: class registration. The definition is entered for the runtime
  under the class id; the list of entries is the record of every registration made.
\<close>

definition JS_NewClass :: "world \<Rightarrow> nat \<Rightarrow> nat \<Rightarrow> JSClassDef \<Rightarrow> world" where
  "JS_NewClass w rt cid class_def = w\<lparr>class_array := class_array w @ [(rt, cid, class_def)]\<rparr>"

definition closure_class_def :: JSClassDef where
  "closure_class_def =
     \<lparr>class_name = ''Std_Closure_Class'',
      finalizer = Some Closure_Finalizer,
      gc_mark = Some Empty_Mark\<rparr>"

text \<open>
  \<^verbatim>\<open>Context::Context(JSContext* ctx)\<close>, the private constructor every other constructor
  delegates to. \<open>closure_class\<close> is the thread-local static member.
\<close>

definition Context_from :: "world \<Rightarrow> nat \<Rightarrow> Context \<times> world" where
  "Context_from w ctx =
     (let this = \<lparr>c_context = ctx\<rparr>
      in if closure_class w = 0
         then (let (cid, w1) = JS_NewClassID w (closure_class w);
                   w2 = w1\<lparr>closure_class := cid\<rparr>;
                   w3 = JS_NewClass w2 (JS_GetRuntime w2 (c_context this)) (closure_class w2)
                          closure_class_def
               in (this, w3))
         else (this, w))"

text \<open>\<^verbatim>\<open>Context::Context(Runtime_Ref& runtime)\<close>.\<close>

definition Context_new :: "world \<Rightarrow> Runtime_Ref \<Rightarrow> Context \<times> world" where
  "Context_new w runtime =
     (let (c, w1) = JS_NewContext w (m_runtime runtime)
      in Context_from w1 c)"

text \<open>\<^verbatim>\<open>Context::Context(const Context& ctx)\<close>.\<close>

definition Context_copy :: "world \<Rightarrow> Context \<Rightarrow> Context \<times> world" where
  "Context_copy w ctx =
     (let (c, w1) = JS_DupContext w (c_context ctx)
      in Context_from w1 c)"

text \<open>\<^verbatim>\<open>Context::~Context()\<close>.\<close>

definition Context_dtor :: "world \<Rightarrow> Context \<Rightarrow> world" where
  "Context_dtor w this =
     (if c_context this \<noteq> 0 then JS_FreeContext w (c_context this) else w)"

text \<open>
  A run of context constructions on one thread, each by one of the two public
  constructors.
\<close>

datatype construction = From_Runtime Runtime_Ref | Copy_Of Context

definition construct :: "construction \<Rightarrow> world \<Rightarrow> world" where
  "construct c w =
     (case c of
        From_Runtime runtime \<Rightarrow> snd (Context_new w runtime)
      | Copy_Of ctx \<Rightarrow> snd (Context_copy w ctx))"

definition first_runtime :: "world \<Rightarrow> construction \<Rightarrow> nat" where
  "first_runtime w c =
     (case c of
        From_Runtime runtime \<Rightarrow> m_runtime runtime
      | Copy_Of ctx \<Rightarrow> context_runtime w (c_context ctx))"

section \<open>Pending exceptions and scalar conversions\<close>

text \<open>
  Modelled from the spec: "Pending exception: per-context state set when an engine
  operation signals failure; consumed (cleared) by fetching it". The fetch hands the
  pending value, with its reference, to the caller and leaves the empty state, the null
  value, behind.
\<close>

definition JS_GetException :: "world \<Rightarrow> nat \<Rightarrow> JSValue \<times> world" where
  "JS_GetException w ctx = (current_exception w, w\<lparr>current_exception := JS_NULL\<rparr>)"

text \<open>
  Modelled from the spec: an engine operation that fails creates an error object and
  makes it the pending exception, releasing the one that was pending before.
\<close>

definition JS_CLASS_ERROR :: nat where
  "JS_CLASS_ERROR = 3"

definition JS_Throw :: "world \<Rightarrow> JSValue \<Rightarrow> world" where
  "JS_Throw w obj =
     (let w1 = JS_FreeValue w (current_exception w)
      in w1\<lparr>current_exception := obj\<rparr>)"

definition JS_ThrowTypeError :: "world \<Rightarrow> world" where
  "JS_ThrowTypeError w =
     (let (obj, w1) = new_instance w JS_CLASS_ERROR (Some 0) (Some ''TypeError'')
      in JS_Throw w1 obj)"

text \<open>
  Modelled from the spec: the integer reading of a value. The immediates read as in the
  scripting language (not-a-number reads as 0 in an integer coercion); a string of decimal
  digits reads as its value and every other string as not-a-number; an object reads as
  its own conversion gives, and has none when \<open>number_value\<close> is empty ("an object with
  no numeric conversion").
\<close>

definition is_digit :: "char \<Rightarrow> bool" where
  "is_digit c = (48 \<le> (of_char c :: nat) \<and> (of_char c :: nat) \<le> 57)"

definition string_number :: "string \<Rightarrow> int" where
  "string_number s =
     (if s \<noteq> [] \<and> list_all is_digit s
      then int (foldl (\<lambda>n c. 10 * n + (of_char c - 48)) 0 s)
      else 0)"

definition to_number :: "world \<Rightarrow> JSValue \<Rightarrow> int option" where
  "to_number w v =
     (case v of
        JS_UNDEFINED \<Rightarrow> Some 0
      | JS_NULL \<Rightarrow> Some 0
      | JS_EXCEPTION \<Rightarrow> None
      | JS_BOOL b \<Rightarrow> Some (if b then 1 else 0)
      | JS_INT n \<Rightarrow> Some n
      | JS_STRING s \<Rightarrow> Some (string_number s)
      | JS_OBJECT a \<Rightarrow>
          (case map_of (heap w) a of
             None \<Rightarrow> None
           | Some ob \<Rightarrow> number_value ob))"

text \<open>
  Modelled from the spec: the 32-bit coercions. On failure they report -1, leave a pending
  exception and write 0; on success they report 0 and write the value reduced to 32 bits.
\<close>

definition JS_ToInt32 :: "world \<Rightarrow> nat \<Rightarrow> JSValue \<Rightarrow> int \<times> 32 word \<times> world" where
  "JS_ToInt32 w ctx val =
     (case to_number w val of
        None \<Rightarrow> (- 1, 0, JS_ThrowTypeError w)
      | Some n \<Rightarrow> (0, word_of_int n, w))"

definition JS_ToUint32 :: "world \<Rightarrow> nat \<Rightarrow> JSValue \<Rightarrow> int \<times> 32 word \<times> world" where
  "JS_ToUint32 w ctx val =
     (case to_number w val of
        None \<Rightarrow> (- 1, 0, JS_ThrowTypeError w)
      | Some n \<Rightarrow> (0, word_of_int n, w))"

text \<open>
  \<^verbatim>\<open>class Exception\<close> holds one handle. Its converting constructor
  \<^verbatim>\<open>Exception(Value value): m_value(value)\<close> takes the handle by value and copies it into
  the member; the parameter is destroyed when the constructor returns.
\<close>

datatype Exception = Exception (e_value: Value)

definition Exception_of :: "world \<Rightarrow> Value \<Rightarrow> Exception \<times> world" where
  "Exception_of w value =
     (let (m, w1) = Value_copy w value;
          w2 = Value_dtor w1 value
      in (Exception m, w2))"

text \<open>\<^verbatim>\<open>Exception Context::get_exception()\<close>.\<close>

definition get_exception :: "world \<Rightarrow> Context \<Rightarrow> Exception \<times> world" where
  "get_exception w this =
     (let (except, w1) = JS_GetException w (c_context this)
      in Exception_of w1 (Value_new except (c_context this)))"

text \<open>
  \<^verbatim>\<open>Result<T>\<close> is \<^verbatim>\<open>std::variant<T, Exception>\<close>: the left injection is the exception
  case. Returning an \<^verbatim>\<open>Exception\<close> temporary as a result copies it into the variant
  (the class has a copy constructor and no move constructor) and destroys the temporary.
\<close>

type_synonym 'a Result = "Exception + 'a"

definition Result_of_Exception :: "world \<Rightarrow> Exception \<Rightarrow> 'a Result \<times> world" where
  "Result_of_Exception w e =
     (let (m, w1) = Value_copy w (e_value e);
          w2 = Value_dtor w1 (e_value e)
      in (Inl (Exception m), w2))"

text \<open>
  The eight conversions of \<^verbatim>\<open>qjs::Context\<close>. The engine coercion each one calls is its
  first argument: a function from the engine state, the context and the value to the
  return code, the converted value and the new state.
\<close>

definition to_bool ::
  "(world \<Rightarrow> nat \<Rightarrow> JSValue \<Rightarrow> int \<times> world) \<Rightarrow> world \<Rightarrow> Context \<Rightarrow> Value \<Rightarrow> bool Result \<times> world"
where
  "to_bool ToBool w this val =
     (let (result, w1) = ToBool w (c_context this) (m_value val)
      in if result = - 1
         then (let (e, w2) = get_exception w1 this in Result_of_Exception w2 e)
         else (Inr (result \<noteq> 0), w1))"

definition to_int32 ::
  "(world \<Rightarrow> nat \<Rightarrow> JSValue \<Rightarrow> int \<times> 32 word \<times> world) \<Rightarrow> world \<Rightarrow> Context \<Rightarrow> Value
     \<Rightarrow> (32 word) Result \<times> world"
where
  "to_int32 ToInt32 w this val =
     (let (result, value, w1) = ToInt32 w (c_context this) (m_value val)
      in if result = - 1
         then (let (e, w2) = get_exception w1 this in Result_of_Exception w2 e)
         else (Inr value, w1))"

definition to_uint32 ::
  "(world \<Rightarrow> nat \<Rightarrow> JSValue \<Rightarrow> int \<times> 32 word \<times> world) \<Rightarrow> world \<Rightarrow> Context \<Rightarrow> Value
     \<Rightarrow> (32 word) Result \<times> world"
where
  "to_uint32 ToUint32 w this val =
     (let (result, value, w1) = ToUint32 w (c_context this) (m_value val)
      in if result = - 1
         then (let (e, w2) = get_exception w1 this in Result_of_Exception w2 e)
         else (Inr value, w1))"

definition to_int64 ::
  "(world \<Rightarrow> nat \<Rightarrow> JSValue \<Rightarrow> int \<times> 64 word \<times> world) \<Rightarrow> world \<Rightarrow> Context \<Rightarrow> Value
     \<Rightarrow> (64 word) Result \<times> world"
where
  "to_int64 ToInt64 w this val =
     (let (result, value, w1) = ToInt64 w (c_context this) (m_value val)
      in if result = - 1
         then (let (e, w2) = get_exception w1 this in Result_of_Exception w2 e)
         else (Inr value, w1))"

definition to_index ::
  "(world \<Rightarrow> nat \<Rightarrow> JSValue \<Rightarrow> int \<times> 64 word \<times> world) \<Rightarrow> world \<Rightarrow> Context \<Rightarrow> Value
     \<Rightarrow> (64 word) Result \<times> world"
where
  "to_index ToIndex w this val =
     (let (result, value, w1) = ToIndex w (c_context this) (m_value val)
      in if result = - 1
         then (let (e, w2) = get_exception w1 this in Result_of_Exception w2 e)
         else (Inr value, w1))"

text \<open>The type of doubles is left open.\<close>

definition to_float64 ::
  "(world \<Rightarrow> nat \<Rightarrow> JSValue \<Rightarrow> int \<times> 'd \<times> world) \<Rightarrow> world \<Rightarrow> Context \<Rightarrow> Value
     \<Rightarrow> 'd Result \<times> world"
where
  "to_float64 ToFloat64 w this val =
     (let (result, value, w1) = ToFloat64 w (c_context this) (m_value val)
      in if result = - 1
         then (let (e, w2) = get_exception w1 this in Result_of_Exception w2 e)
         else (Inr value, w1))"

definition to_bigint64 ::
  "(world \<Rightarrow> nat \<Rightarrow> JSValue \<Rightarrow> int \<times> 64 word \<times> world) \<Rightarrow> world \<Rightarrow> Context \<Rightarrow> Value
     \<Rightarrow> (64 word) Result \<times> world"
where
  "to_bigint64 ToBigInt64 w this val =
     (let (result, value, w1) = ToBigInt64 w (c_context this) (m_value val)
      in if result = - 1
         then (let (e, w2) = get_exception w1 this in Result_of_Exception w2 e)
         else (Inr value, w1))"

definition to_int64_ext ::
  "(world \<Rightarrow> nat \<Rightarrow> JSValue \<Rightarrow> int \<times> 64 word \<times> world) \<Rightarrow> world \<Rightarrow> Context \<Rightarrow> Value
     \<Rightarrow> (64 word) Result \<times> world"
where
  "to_int64_ext ToInt64Ext w this val =
     (let (result, value, w1) = ToInt64Ext w (c_context this) (m_value val)
      in if result = - 1
         then (let (e, w2) = get_exception w1 this in Result_of_Exception w2 e)
         else (Inr value, w1))"

text \<open>
  The pattern of the result protocol, for one conversion: \<open>failed\<close> says that the engine
  coercion reported failure, \<open>value\<close> and \<open>w1\<close> are the value it wrote and the state it
  left, \<open>out\<close> is what the conversion returned.
\<close>

definition follows_protocol ::
  "bool \<Rightarrow> 'a \<Rightarrow> world \<Rightarrow> Context \<Rightarrow> 'a Result \<times> world \<Rightarrow> bool"
where
  "follows_protocol failed value w1 this out \<longleftrightarrow>
     (isl (fst out) \<longleftrightarrow> failed) \<and>
     (failed \<longrightarrow>
        fst out = Inl (Exception \<lparr>m_context = c_context this, m_value = current_exception w1\<rparr>) \<and>
        current_exception (snd out) = JS_NULL) \<and>
     (\<not> failed \<longrightarrow> out = (Inr value, w1))"

text \<open>
  An engine state with one object that has no numeric conversion, and the handle that
  owns it.
\<close>

definition unconvertible_world :: world where
  "unconvertible_world =
     fresh_world
       \<lparr>heap := [(0, \<lparr>ref_count = 1, class_id = JS_CLASS_OBJECT, extensible = True,
                     props = [], opaque = None, func_data = [], func_magic = 0,
                     number_value = None, string_value = None\<rparr>)],
        next_addr := 1\<rparr>"

definition unconvertible_handle :: Value where
  "unconvertible_handle = \<lparr>m_context = 1, m_value = JS_OBJECT 0\<rparr>"

section \<open>Strings across the C interface\<close>

text \<open>
  A host string is a sequence of bytes with its length. \<^verbatim>\<open>c_str()\<close> exposes it as a
  buffer that ends with an extra zero byte; an engine function that takes a C string
  alone reads such a buffer up to the first zero byte.
\<close>

definition c_str :: "string \<Rightarrow> string" where
  "c_str s = s @ [CHR 0x00]"

definition c_string :: "string \<Rightarrow> string" where
  "c_string buf = takeWhile (\<lambda>c. c \<noteq> CHR 0x00) buf"

text \<open>
  Modelled from the spec: "length-prefixed string (explicit byte length, not
  null-terminated -- safe for embedded null bytes)". The engine's string holds the first
  \<open>len\<close> bytes of the buffer as they are.
\<close>

definition JS_NewStringLen :: "world \<Rightarrow> nat \<Rightarrow> string \<Rightarrow> nat \<Rightarrow> JSValue \<times> world" where
  "JS_NewStringLen w ctx buf len = (JS_STRING (take len buf), w)"

text \<open>Modelled from the spec: the atom-interned string is made from a C string alone.\<close>

definition JS_NewAtomString :: "world \<Rightarrow> nat \<Rightarrow> string \<Rightarrow> JSValue \<times> world" where
  "JS_NewAtomString w ctx buf = (JS_STRING (c_string buf), w)"

function decimal :: "nat \<Rightarrow> string" where
  "decimal n =
     (if n < 10 then [char_of (48 + n)]
      else decimal (n div 10) @ [char_of (48 + n mod 10)])"
  by pat_completeness auto
termination
  by (relation "measure id") auto

declare decimal.simps [simp del]

text \<open>
  Modelled from the spec: the text of a value, as the engine's string coercion gives it.
\<close>

definition to_text :: "world \<Rightarrow> JSValue \<Rightarrow> string option" where
  "to_text w v =
     (case v of
        JS_UNDEFINED \<Rightarrow> Some ''undefined''
      | JS_NULL \<Rightarrow> Some ''null''
      | JS_EXCEPTION \<Rightarrow> None
      | JS_BOOL b \<Rightarrow> Some (if b then ''true'' else ''false'')
      | JS_INT n \<Rightarrow> Some (if n < 0 then CHR ''-'' # decimal (nat (- n)) else decimal (nat n))
      | JS_STRING s \<Rightarrow> Some s
      | JS_OBJECT a \<Rightarrow>
          (case map_of (heap w) a of
             None \<Rightarrow> None
           | Some ob \<Rightarrow> string_value ob))"

text \<open>
  Modelled from the spec: "requesting a length-qualified C-string view". The view is a
  zero-terminated buffer together with the length of the text; where the coercion fails
  the engine returns the null pointer and leaves an exception pending. Releasing the view
  changes nothing that the model keeps.
\<close>

definition JS_ToCStringLen :: "world \<Rightarrow> nat \<Rightarrow> JSValue \<Rightarrow> string option \<times> nat \<times> world" where
  "JS_ToCStringLen w ctx val =
     (case to_text w val of
        None \<Rightarrow> (None, 0, JS_ThrowTypeError w)
      | Some s \<Rightarrow> (Some (c_str s), length s, w))"

definition JS_FreeCString :: "world \<Rightarrow> nat \<Rightarrow> string option \<Rightarrow> world" where
  "JS_FreeCString w ctx chars = w"

text \<open>\<^verbatim>\<open>Context::new_string(const std::string& str)\<close>.\<close>

definition new_string :: "world \<Rightarrow> Context \<Rightarrow> string \<Rightarrow> Value \<times> world" where
  "new_string w this str =
     (let (value, w1) = JS_NewStringLen w (c_context this) (c_str str) (length str)
      in (Value_new value (c_context this), w1))"

text \<open>\<^verbatim>\<open>Context::new_atom_string(const std::string& str)\<close>.\<close>

definition new_atom_string :: "world \<Rightarrow> Context \<Rightarrow> string \<Rightarrow> Value \<times> world" where
  "new_atom_string w this str =
     (let (value, w1) = JS_NewAtomString w (c_context this) (c_str str)
      in (Value_new value (c_context this), w1))"

text \<open>
  \<^verbatim>\<open>Context::to_std_string(const Value& val)\<close>. \<^verbatim>\<open>std::string str(chars, len)\<close> copies
  \<open>len\<close> bytes from the buffer; with a null buffer it is undefined.
\<close>

definition to_std_string :: "world \<Rightarrow> Context \<Rightarrow> Value \<Rightarrow> string \<times> world" where
  "to_std_string w this val =
     (let (chars, len, w1) = JS_ToCStringLen w (c_context this) (m_value val)
      in case chars of
           None \<Rightarrow> ([], w1\<lparr>faults := faults w1 @ [Null_String]\<rparr>)
         | Some buf \<Rightarrow>
             (let str = take len buf;
                  w2 = JS_FreeCString w1 (c_context this) chars
              in (str, w2)))"

text \<open>\<^verbatim>\<open>Context::new_int32(int32_t val)\<close>.\<close>

definition new_int32 :: "Context \<Rightarrow> 32 word \<Rightarrow> Value" where
  "new_int32 this val = Value_new (JS_INT (sint val)) (c_context this)"

section \<open>Properties\<close>

text \<open>
  Modelled from the spec: atoms. An atom is the interned property key, made from the first
  \<open>len\<close> bytes of a buffer; the interning table is outside the model, so releasing an atom
  changes nothing. Names and indices are kept apart, and objects have their own
  properties only.
\<close>

definition JS_NewAtomLen :: "nat \<Rightarrow> string \<Rightarrow> nat \<Rightarrow> prop_key" where
  "JS_NewAtomLen ctx buf len = Name (take len buf)"

text \<open>The property table of the object a value refers to, read directly.\<close>

definition own_property :: "world \<Rightarrow> JSValue \<Rightarrow> prop_key \<Rightarrow> JSValue option" where
  "own_property w obj key =
     (case obj of
        JS_OBJECT a \<Rightarrow>
          (case map_of (heap w) a of
             None \<Rightarrow> None
           | Some ob \<Rightarrow> map_of (props ob) key)
      | _ \<Rightarrow> None)"

text \<open>Modelled from the spec: the engine's has-property query, 1 or 0.\<close>

definition JS_HasProperty :: "world \<Rightarrow> JSValue \<Rightarrow> prop_key \<Rightarrow> int" where
  "JS_HasProperty w obj atom = (if own_property w obj atom = None then 0 else 1)"

text \<open>
  Modelled from the spec: the engine's property read. The caller receives a reference of
  its own to the property's value ("the property value (newly owned)"), the undefined
  value where there is no such property.
\<close>

definition JS_GetProperty :: "world \<Rightarrow> JSValue \<Rightarrow> prop_key \<Rightarrow> JSValue \<times> world" where
  "JS_GetProperty w obj key =
     (case own_property w obj key of
        None \<Rightarrow> (JS_UNDEFINED, w)
      | Some v \<Rightarrow> JS_DupValue w v)"

definition JS_GetPropertyStr :: "world \<Rightarrow> nat \<Rightarrow> JSValue \<Rightarrow> string \<Rightarrow> JSValue \<times> world" where
  "JS_GetPropertyStr w ctx obj buf = JS_GetProperty w obj (Name (c_string buf))"

definition JS_GetPropertyUint32 :: "world \<Rightarrow> nat \<Rightarrow> JSValue \<Rightarrow> 32 word \<Rightarrow> JSValue \<times> world" where
  "JS_GetPropertyUint32 w ctx obj idx = JS_GetProperty w obj (Index idx)"

text \<open>
  Modelled from the spec: extensibility. Only an object can be extensible; the query
  answers 1 or 0.
\<close>

definition JS_IsExtensible :: "world \<Rightarrow> nat \<Rightarrow> JSValue \<Rightarrow> int" where
  "JS_IsExtensible w ctx obj =
     (case obj of
        JS_OBJECT a \<Rightarrow>
          (case map_of (heap w) a of
             None \<Rightarrow> 0
           | Some ob \<Rightarrow> if extensible ob then 1 else 0)
      | _ \<Rightarrow> 0)"

definition JS_PreventExtensions :: "world \<Rightarrow> nat \<Rightarrow> JSValue \<Rightarrow> world" where
  "JS_PreventExtensions w ctx obj =
     (case obj of
        JS_OBJECT a \<Rightarrow>
          (case map_of (heap w) a of
             None \<Rightarrow> w
           | Some ob \<Rightarrow> w\<lparr>heap := AList.update a (ob\<lparr>extensible := False\<rparr>) (heap w)\<rparr>)
      | _ \<Rightarrow> w)"

text \<open>
  Modelled from the spec: the engine's property write ("property get/set/has/delete by name
  or index"). The spec does not say who owns the written value; in the engine's interface
  the value is an owned argument (declared \<^verbatim>\<open>JSValue\<close>, where borrowed arguments are
  declared \<^verbatim>\<open>JSValueConst\<close>): the reference the caller passes in becomes the property's
  own, no new reference is taken, and the engine releases it itself where the write is
  refused. A value that the write replaces is released. The result is 1 for a write that
  took place and 0 for one that did not.
\<close>

definition write_slot :: "world \<Rightarrow> addr \<Rightarrow> JSObject \<Rightarrow> prop_key \<Rightarrow> JSValue \<Rightarrow> world" where
  "write_slot w a ob key val =
     w\<lparr>heap := AList.update a (ob\<lparr>props := AList.update key val (props ob)\<rparr>) (heap w)\<rparr>"

definition JS_SetProperty :: "world \<Rightarrow> JSValue \<Rightarrow> prop_key \<Rightarrow> JSValue \<Rightarrow> int \<times> world" where
  "JS_SetProperty w this_obj key val =
     (case this_obj of
        JS_OBJECT a \<Rightarrow>
          (case map_of (heap w) a of
             None \<Rightarrow> (0, JS_FreeValue w val)
           | Some ob \<Rightarrow>
               (case map_of (props ob) key of
                  Some old \<Rightarrow> (1, JS_FreeValue (write_slot w a ob key val) old)
                | None \<Rightarrow>
                    if extensible ob then (1, write_slot w a ob key val)
                    else (0, JS_FreeValue w val)))
      | _ \<Rightarrow> (0, JS_FreeValue w val))"

definition JS_SetPropertyStr ::
  "world \<Rightarrow> nat \<Rightarrow> JSValue \<Rightarrow> string \<Rightarrow> JSValue \<Rightarrow> int \<times> world" where
  "JS_SetPropertyStr w ctx this_obj buf val = JS_SetProperty w this_obj (Name (c_string buf)) val"

definition JS_SetPropertyUint32 ::
  "world \<Rightarrow> nat \<Rightarrow> JSValue \<Rightarrow> 32 word \<Rightarrow> JSValue \<Rightarrow> int \<times> world" where
  "JS_SetPropertyUint32 w ctx this_obj idx val = JS_SetProperty w this_obj (Index idx) val"

text \<open>
  A function that returns \<^verbatim>\<open>std::optional<Value>\<close> from a \<^verbatim>\<open>Value\<close> temporary copies the
  temporary into the optional (the handle has a copy constructor and no move constructor)
  and destroys it.
\<close>

definition optional_of :: "world \<Rightarrow> Value \<Rightarrow> Value option \<times> world" where
  "optional_of w tmp =
     (let (v, w1) = Value_copy w tmp;
          w2 = Value_dtor w1 tmp
      in (Some v, w2))"

text \<open>\<^verbatim>\<open>bool Value::has_property(const std::string& prop)\<close>.\<close>

definition has_property :: "world \<Rightarrow> Value \<Rightarrow> string \<Rightarrow> bool" where
  "has_property w this prop =
     (let atom = JS_NewAtomLen (m_context this) (c_str prop) (length prop);
          result = (JS_HasProperty w (m_value this) atom \<noteq> 0)
      in result)"

text \<open>\<^verbatim>\<open>std::optional<Value> Value::get_property(const std::string& prop)\<close>.\<close>

definition get_property :: "world \<Rightarrow> Value \<Rightarrow> string \<Rightarrow> Value option \<times> world" where
  "get_property w this prop =
     (if \<not> has_property w this prop then (None, w)
      else (let (value, w1) = JS_GetPropertyStr w (m_context this) (m_value this) (c_str prop)
            in optional_of w1 (Value_new value (m_context this))))"

text \<open>
  \<^verbatim>\<open>std::optional<Value> Value::get_property(uint32_t idx)\<close>. The local \<^verbatim>\<open>length\<close> is
  destroyed on each way out, after the value to return has been made. The coercion is
  applied to \<^verbatim>\<open>m_value\<close>, the receiver, as in the source.
\<close>

definition get_property_idx :: "world \<Rightarrow> Value \<Rightarrow> 32 word \<Rightarrow> Value option \<times> world" where
  "get_property_idx w this idx =
     (if \<not> has_property w this ''length'' then (None, w)
      else (let (length, w1) = get_property w this ''length''
            in case length of
                 Some l \<Rightarrow>
                   (let (rc, len, w2) = JS_ToUint32 w1 (m_context this) (m_value this)
                    in if idx \<ge> len then (None, Value_dtor w2 l)
                       else (let (value, w3) =
                                   JS_GetPropertyUint32 w2 (m_context this) (m_value this) idx;
                                 (r, w4) = optional_of w3 (Value_new value (m_context this))
                             in (r, Value_dtor w4 l)))
               | None \<Rightarrow>
                   (let (value, w3) =
                          JS_GetPropertyUint32 w1 (m_context this) (m_value this) idx
                    in optional_of w3 (Value_new value (m_context this)))))"

text \<open>\<^verbatim>\<open>bool Value::is_extensible()\<close> and \<^verbatim>\<open>void Value::prevent_extensions()\<close>.\<close>

definition is_extensible :: "world \<Rightarrow> Value \<Rightarrow> bool" where
  "is_extensible w this = (JS_IsExtensible w (m_context this) (m_value this) \<noteq> 0)"

definition prevent_extensions :: "world \<Rightarrow> Value \<Rightarrow> world" where
  "prevent_extensions w this = JS_PreventExtensions w (m_context this) (m_value this)"

text \<open>\<^verbatim>\<open>bool Value::set_property(const std::string& prop, const Value& val)\<close>.\<close>

definition set_property :: "world \<Rightarrow> Value \<Rightarrow> string \<Rightarrow> Value \<Rightarrow> bool \<times> world" where
  "set_property w this prop val =
     (if \<not> is_extensible w this then (False, w)
      else (let (r, w1) =
                  JS_SetPropertyStr w (m_context this) (m_value this) (c_str prop) (m_value val)
            in (True, w1)))"

text \<open>\<^verbatim>\<open>bool Value::set_property(uint32_t idx, const Value& val)\<close>.\<close>

definition set_property_idx :: "world \<Rightarrow> Value \<Rightarrow> 32 word \<Rightarrow> Value \<Rightarrow> bool \<times> world" where
  "set_property_idx w this idx val =
     (if \<not> is_extensible w this then (False, w)
      else (let (r, w1) =
                  JS_SetPropertyUint32 w (m_context this) (m_value this) idx (m_value val)
            in (True, w1)))"

text \<open>
  One object in a fresh engine, the handle that owns it, and the same state after
  \<^verbatim>\<open>prevent_extensions()\<close>.
\<close>

definition receiver :: Value where
  "receiver = fst (new_object fresh_world \<lparr>c_context = 1\<rparr>)"

definition open_world :: world where
  "open_world = snd (new_object fresh_world \<lparr>c_context = 1\<rparr>)"

definition sealed_world :: world where
  "sealed_world = prevent_extensions open_world receiver"

text \<open>
  A property name with a zero byte in it, \<^verbatim>\<open>std::string("a\0b", 3)\<close>, and the state
  after \<^verbatim>\<open>set_property\<close> of that name to 5 on the extensible receiver.
\<close>

definition zero_byte_name :: string where
  "zero_byte_name = [CHR ''a'', CHR 0x00, CHR ''b'']"

definition after_zero_byte_write :: "bool \<times> world" where
  "after_zero_byte_write =
     set_property open_world receiver zero_byte_name (new_int32 \<lparr>c_context = 1\<rparr> 5)"

text \<open>
  An array-like object built through the binding: \<^verbatim>\<open>length\<close> is 3 and the elements 0, 1
  and 2 are 10, 11 and 12.
\<close>

definition array_like :: world where
  "array_like =
     (let ctx = \<lparr>c_context = 1\<rparr>;
          (ok, w1) = set_property open_world receiver ''length'' (new_int32 ctx 3);
          (ok, w2) = set_property_idx w1 receiver 0 (new_int32 ctx 10);
          (ok, w3) = set_property_idx w2 receiver 1 (new_int32 ctx 11);
          (ok, w4) = set_property_idx w3 receiver 2 (new_int32 ctx 12)
      in w4)"

text \<open>
  \<^verbatim>\<open>obj.set_property(key, val)\<close> with two fresh objects, then \<open>val\<close> goes out of scope,
  then \<open>obj\<close>. The states after the call, after the first destructor and after the second
  are returned. The key is the name \<^verbatim>\<open>x\<close> or the index 0.
\<close>

definition set_then_destroy ::
  "bool \<Rightarrow> world \<Rightarrow> Value \<times> Value \<times> bool \<times> world \<times> world \<times> world" where
  "set_then_destroy by_index w =
     (let (obj, w1) = new_object w \<lparr>c_context = 1\<rparr>;
          (val, w2) = new_object w1 \<lparr>c_context = 1\<rparr>;
          (ok, w3) = (if by_index then set_property_idx w2 obj 0 val
                      else set_property w2 obj ''x'' val);
          w4 = Value_dtor w3 val;
          w5 = Value_dtor w4 obj
      in (obj, val, ok, w3, w4, w5))"

section \<open>The closure bridge\<close>

text \<open>
  A host closure computes a result value from \<^verbatim>\<open>this\<close>, the arguments and the integer
  discriminant. \<^verbatim>\<open>new Function(fn)\<close> puts a copy of it on the host heap; every
  invocation is logged with the pointer called through and what it was given.
\<close>

definition new_Function :: "world \<Rightarrow> Function \<Rightarrow> nat \<times> world" where
  "new_Function w fn =
     (let p = next_closure w
      in (p, w\<lparr>closures := closures w @ [(p, fn)], next_closure := p + 1\<rparr>))"

text \<open>
  \<^verbatim>\<open>(*fn)(ctx_, this_val_, argv_, magic)\<close>: the call through the pointer read from the
  opaque slot. The handle the closure returns owns a reference to the result.
\<close>

definition call_Function ::
  "world \<Rightarrow> nat option \<Rightarrow> Context \<Rightarrow> Value \<Rightarrow> Value list \<Rightarrow> int \<Rightarrow> Value \<times> world" where
  "call_Function w fn ctx' this_val' argv' magic =
     (case (case fn of None \<Rightarrow> None | Some p \<Rightarrow> map_option (Pair p) (map_of (closures w) p)) of
        None \<Rightarrow> (Value_new JS_UNDEFINED (c_context ctx'), w\<lparr>faults := faults w @ [Null_Closure]\<rparr>)
      | Some (p, f) \<Rightarrow>
          (let w1 = w\<lparr>invoked :=
                       invoked w @ [(p, m_value this_val', map m_value argv', magic)]\<rparr>;
               (r, w2) = JS_DupValue w1 (f (m_value this_val') (map m_value argv') magic)
           in (Value_new r (c_context ctx'), w2)))"

text \<open>Modelled from the spec: the opaque slot of a native instance is set.\<close>

definition JS_SetOpaque :: "world \<Rightarrow> JSValue \<Rightarrow> nat option \<Rightarrow> world" where
  "JS_SetOpaque w obj ptr =
     (case obj of
        JS_OBJECT a \<Rightarrow>
          (case map_of (heap w) a of
             None \<Rightarrow> w
           | Some ob \<Rightarrow> w\<lparr>heap := AList.update a (ob\<lparr>opaque := ptr\<rparr>) (heap w)\<rparr>)
      | _ \<Rightarrow> w)"

text \<open>
  Modelled from the spec: "Register a native function value with the engine, binding the
  carrier instance as one piece of bound/captured data threaded through every future
  invocation"; "the engine's own reference counting keeps it alive exactly as long as the
  function value (or anything holding it) is alive". The array of bound values is a
  borrowed argument ("the callee does not consume caller-owned references"): the engine
  reads it and duplicates each value for the function object, which releases them when it
  is destroyed.
\<close>

definition JS_CLASS_C_FUNCTION_DATA :: nat where
  "JS_CLASS_C_FUNCTION_DATA = 15"

fun dup_values :: "world \<Rightarrow> JSValue list \<Rightarrow> world" where
  "dup_values w [] = w"
| "dup_values w (v # vs) = dup_values (snd (JS_DupValue w v)) vs"

definition JS_NewCFunctionData ::
  "world \<Rightarrow> nat \<Rightarrow> int \<Rightarrow> int \<Rightarrow> nat \<Rightarrow> JSValue list \<Rightarrow> JSValue \<times> world" where
  "JS_NewCFunctionData w ctx length' magic data_len data =
     (let w1 = dup_values w (take data_len data);
          a = next_addr w1;
          ob = \<lparr>ref_count = 1, class_id = JS_CLASS_C_FUNCTION_DATA, extensible = True,
                props = [], opaque = None, func_data = take data_len data,
                func_magic = magic, number_value = Some 0,
                string_value = Some ''function () { [native code] }''\<rparr>
      in (JS_OBJECT a, w1\<lparr>heap := heap w1 @ [(a, ob)], next_addr := a + 1\<rparr>))"

text \<open>
  The loop of the trampoline that fills \<^verbatim>\<open>argv_\<close>: each raw argument is duplicated into
  a temporary handle, \<^verbatim>\<open>push_back\<close> copies the temporary into the vector, and the
  temporary is destroyed. (When the vector grows it copies its elements and destroys the
  old ones, one duplicate and one release each; that pair is left out.)
\<close>

fun push_arguments :: "world \<Rightarrow> nat \<Rightarrow> JSValue list \<Rightarrow> Value list \<Rightarrow> Value list \<times> world" where
  "push_arguments w c [] argv' = (argv', w)"
| "push_arguments w c (a # as) argv' =
     (let (v, w1) = JS_DupValue w a;
          tmp = Value_new v c;
          (el, w2) = Value_copy w1 tmp;
          w3 = Value_dtor w2 tmp
      in push_arguments w3 c as (argv' @ [el]))"

text \<open>
  The trampoline (its locals that end in an underscore are written with a prime): the
  lambda handed to the engine in \<^verbatim>\<open>Context::new_c_function\<close>
  (quickjs.cpp, lines 232-243). The locals are destroyed in the reverse order of their
  construction once the value to return has been made.
\<close>

definition trampoline ::
  "world \<Rightarrow> nat \<Rightarrow> JSValue \<Rightarrow> nat \<Rightarrow> JSValue list \<Rightarrow> int \<Rightarrow> JSValue list \<Rightarrow> JSValue \<times> world" where
  "trampoline w ctx this_val argc argv magic data =
     (let (c, w1) = JS_DupContext w ctx;
          (ctx', w2) = Context_from w1 c;
          (t, w3) = JS_DupValue w2 this_val;
          this_val' = Value_new t (c_context ctx');
          (argv', w4) = push_arguments w3 (c_context ctx') (take argc argv) [];
          opaque = (case data of [] \<Rightarrow> None | d # ds \<Rightarrow> JS_GetOpaque w4 d (closure_class w4));
          fn = opaque;
          (value, w5) = call_Function w4 fn ctx' this_val' argv' magic;
          (ret, w6) = JS_DupValue w5 (m_value value);
          w7 = Value_dtor w6 value;
          w8 = destroy_all w7 argv';
          w9 = Value_dtor w8 this_val';
          w10 = Context_dtor w9 ctx'
      in (ret, w10))"

text \<open>
  Modelled from the spec: the engine's call primitive. A native function value is called
  through the trampoline, which gets the function's bound data and discriminant; the
  arguments are borrowed and the result is a fresh reference. Calling anything else fails.
\<close>

definition JS_Call :: "world \<Rightarrow> nat \<Rightarrow> JSValue \<Rightarrow> JSValue \<Rightarrow> JSValue list \<Rightarrow> JSValue \<times> world" where
  "JS_Call w ctx func_obj this_obj argv =
     (case func_obj of
        JS_OBJECT a \<Rightarrow>
          (case map_of (heap w) a of
             None \<Rightarrow> (JS_EXCEPTION, JS_ThrowTypeError w)
           | Some ob \<Rightarrow>
               if class_id ob = JS_CLASS_C_FUNCTION_DATA
               then trampoline w ctx this_obj (length argv) argv (func_magic ob) (func_data ob)
               else (JS_EXCEPTION, JS_ThrowTypeError w))
      | _ \<Rightarrow> (JS_EXCEPTION, JS_ThrowTypeError w))"

text \<open>
  \<^verbatim>\<open>Context::new_c_function\<close>. \<^verbatim>\<open>datav\<close> is the one-element buffer that receives a
  byte copy of \<^verbatim>\<open>data\<close>; the local \<^verbatim>\<open>data\<close> is a raw engine value, not a handle, and
  nothing is done with it after the call that registers the function. The parameter
  \<^verbatim>\<open>length\<close> is written with a prime.
\<close>

definition new_c_function ::
  "world \<Rightarrow> Context \<Rightarrow> Function \<Rightarrow> string \<Rightarrow> int \<Rightarrow> int \<Rightarrow> Value \<times> world" where
  "new_c_function w this fn name length' magic =
     (let (fn', w1) = new_Function w fn;
          (data, w2) = JS_NewObjectClass w1 (closure_class w1);
          datav = [data];
          w3 = JS_SetOpaque w2 data (Some fn');
          (value, w4) = JS_NewCFunctionData w3 (c_context this) length' magic 1 datav
      in (Value_new value (c_context this), w4))"

text \<open>\<^verbatim>\<open>Value Value::call(const Value& this_obj, const std::vector<Value>& args)\<close>.\<close>

definition call :: "world \<Rightarrow> Value \<Rightarrow> Value \<Rightarrow> Value list \<Rightarrow> Value \<times> world" where
  "call w this this_obj args =
     (let c_args = map m_value args;
          (value, w1) = JS_Call w (m_context this) (m_value this) (m_value this_obj) c_args
      in (Value_new value (m_context this), w1))"

section \<open>Collection\<close>

text \<open>
  Modelled from the spec: "force an immediate collection pass". The pass destroys the
  objects that only references among themselves keep alive: an object with more counted
  references than the heap holds to it is held from outside, and it and everything it
  reaches survive; the rest is finalized and removed, and the references it held to
  survivors are released.
\<close>

definition object_refs :: "JSValue list \<Rightarrow> addr list" where
  "object_refs vs = concat (map (\<lambda>v. case v of JS_OBJECT a \<Rightarrow> [a] | _ \<Rightarrow> []) vs)"

definition heap_refs :: "world \<Rightarrow> addr list" where
  "heap_refs w = concat (map (\<lambda>(a, ob). object_refs (children ob)) (heap w))"

definition gc_roots :: "world \<Rightarrow> addr list" where
  "gc_roots w =
     map fst (filter (\<lambda>(a, ob). count_list (heap_refs w) a < ref_count ob) (heap w))"

definition successors :: "world \<Rightarrow> addr \<Rightarrow> addr list" where
  "successors w a =
     (case map_of (heap w) a of
        None \<Rightarrow> []
      | Some ob \<Rightarrow> object_refs (children ob))"

fun gc_scan :: "nat \<Rightarrow> world \<Rightarrow> addr list \<Rightarrow> addr list" where
  "gc_scan 0 w seen = seen"
| "gc_scan (Suc n) w seen = gc_scan n w (remdups (seen @ concat (map (successors w) seen)))"

definition JS_RunGC :: "world \<Rightarrow> world" where
  "JS_RunGC w =
     (let live = gc_scan (length (heap w)) w (gc_roots w);
          garbage = filter (\<lambda>(a, ob). a \<notin> set live) (heap w);
          w1 = fold (\<lambda>(a, ob) w'. run_finalizer w' a ob) garbage w;
          w2 = w1\<lparr>heap := filter (\<lambda>(a, ob). a \<in> set live) (heap w1)\<rparr>;
          held = filter (\<lambda>v. case v of JS_OBJECT a \<Rightarrow> a \<in> set live | _ \<Rightarrow> False)
                   (concat (map (\<lambda>(a, ob). children ob) garbage))
      in free_values w2 held)"

text \<open>\<^verbatim>\<open>void Runtime_Ref::run_gc()\<close>.\<close>

definition run_gc :: "world \<Rightarrow> Runtime_Ref \<Rightarrow> world" where
  "run_gc w this = JS_RunGC w"

text \<open>
  The life of a registered closure: a runtime and a context are made, the closure is
  registered and the host keeps only the function value; the function is called once on
  an object with one argument; the result and then the function value are released, and
  a collection pass is forced. The states after the call and at the end are returned,
  with the function value and the receiver of the call.
\<close>

definition answer :: Function where
  "answer this_val argv magic = JS_INT 42"

definition closure_life :: "world \<Rightarrow> Value \<times> Value \<times> Value \<times> world \<times> world" where
  "closure_life w =
     (let (rt, w1) = Runtime_new w;
          (ctx, w2) = Context_new w1 (m_ref rt);
          (f, w3) = new_c_function w2 ctx answer ''answer'' 1 0;
          (this_obj, w4) = new_object w3 ctx;
          (r, w5) = call w4 f this_obj [new_int32 ctx 7];
          w6 = Value_dtor w5 r;
          w7 = Value_dtor w6 f;
          w8 = Value_dtor w7 this_obj;
          w9 = run_gc w8 (m_ref rt)
      in (f, this_obj, r, w5, w9))"

section \<open>Basic facts about duplicate and release\<close>

lemma current_exception_run_finalizer [simp]:
  "current_exception (run_finalizer w a ob) = current_exception w"
  by (simp add: run_finalizer_def closure_finalizer_def delete_Function_def
      split: option.splits prod.splits finalizer_fn.splits)

lemma current_exception_free_values [simp]:
  "current_exception (free_values w vs) = current_exception w"
  by (induction w vs rule: free_values.induct)
     (simp_all add: free_values.simps Let_def split: JSValue.splits option.splits)

lemma current_exception_JS_FreeValue [simp]:
  "current_exception (JS_FreeValue w v) = current_exception w"
  by (simp add: JS_FreeValue_def)

lemma JS_DupValue_value [simp]: "fst (JS_DupValue w v) = v"
  by (simp add: JS_DupValue_def split: JSValue.splits option.splits)

lemma current_exception_JS_DupValue [simp]:
  "current_exception (snd (JS_DupValue w v)) = current_exception w"
  by (simp add: JS_DupValue_def split: JSValue.splits option.splits)

lemma Value_copy_value [simp]: "fst (Value_copy w val) = val"
  by (simp add: Value_copy_def split_beta)

lemma current_exception_Value_copy [simp]:
  "current_exception (snd (Value_copy w val)) = current_exception w"
  by (simp add: Value_copy_def split_beta)

lemma current_exception_Value_dtor [simp]:
  "current_exception (Value_dtor w val) = current_exception w"
  by (simp add: Value_dtor_def)

section \<open>Reference counts of handles: the assignment operator\<close>

lemma map_of_update_same [simp]: "map_of (AList.update k v al) k = Some v"
  by (simp add: AList.update_conv')

lemma count_of_JS_DupValue:
  "count_of w v = Some c \<Longrightarrow> count_of (snd (JS_DupValue w v)) v = Some (c + 1)"
  by (auto simp: count_of_def JS_DupValue_def split: JSValue.splits option.splits)

lemma count_of_JS_FreeValue:
  "count_of w v = Some c \<Longrightarrow> 1 < c \<Longrightarrow> count_of (JS_FreeValue w v) v = Some (c - 1)"
  by (auto simp: count_of_def JS_FreeValue_def free_values.simps
      split: JSValue.splits option.splits)

lemma copy_n_handles: "fst (copy_n n w h) = replicate n h"
  by (induction n arbitrary: w) (simp_all add: split_beta)

lemma copy_n_count:
  "count_of w (m_value h) = Some c \<Longrightarrow>
     count_of (snd (copy_n n w h)) (m_value h) = Some (c + n)"
proof (induction n arbitrary: w c)
  case 0
  then show ?case by simp
next
  case (Suc n)
  have "count_of (snd (Value_copy w h)) (m_value h) = Some (c + 1)"
    using Suc.prems by (simp add: Value_copy_def split_beta count_of_JS_DupValue)
  from Suc.IH [OF this] show ?case by (simp add: split_beta)
qed

lemma destroy_all_count:
  "count_of w (m_value h) = Some (c + n) \<Longrightarrow> 0 < c \<Longrightarrow>
     count_of (destroy_all w (replicate n h)) (m_value h) = Some c"
proof (induction n arbitrary: w)
  case 0
  then show ?case by simp
next
  case (Suc n)
  have "count_of (Value_dtor w h) (m_value h) = Some (c + n)"
    using count_of_JS_FreeValue [of w "m_value h" "c + Suc n"] Suc.prems
    by (simp add: Value_dtor_def)
  from Suc.IH [OF this Suc.prems(2)] show ?case by simp
qed

text \<open>
  The copy constructor is paired with the destructor: \<open>n\<close> copies of a handle to a live
  object, all destroyed again, leave the object's count where it was.
\<close>

lemma copy_construction_is_symmetric:
  assumes "count_of w (m_value h) = Some c" and "0 < c"
  shows "count_of (destroy_all (snd (copy_n n w h)) (fst (copy_n n w h))) (m_value h) = Some c"
  using destroy_all_count [OF copy_n_count [OF assms(1), of n] assms(2)]
  by (simp add: copy_n_handles)

text \<open>
  C2 (fails on the code). After \<^verbatim>\<open>a = b;\<close> and the destruction of both handles, the
  object \<open>b\<close> referred to is gone, as it should be, but the object that \<open>a\<close> held before
  the assignment still has its count of 1 although no handle refers to it: the assignment
  operator duplicates the new reference and never releases the one it overwrites.
\<close>

theorem Value_assign_leaks_overwritten_reference:
  "(case assign_over fresh_world of (a, b, w) \<Rightarrow>
      m_value a = JS_OBJECT 0 \<and> m_value b = JS_OBJECT 1 \<and>
      count_of w (m_value b) = None \<and> count_of w (m_value a) = Some 1 \<and> faults w = [])"
  by (simp add: assign_over_def new_object_def JS_NewObject_def new_instance_def
      fresh_world_def Value_new_def Value_assign_def Value_dtor_def JS_DupValue_def
      JS_FreeValue_def free_values.simps count_of_def run_finalizer_def children_def)

section \<open>Runtimes and class registration\<close>

text \<open>
  C9 (fails on the code). A runtime is created and moved from; both objects are then
  destroyed. The engine's free primitive is called twice on the one instance, the second
  time on an instance that is no longer live.
\<close>

theorem Runtime_move_frees_twice:
  "(case move_and_destroy fresh_world of (a, b, w) \<Rightarrow>
      m_runtime (m_ref a) = 1 \<and> m_runtime (m_ref b) = 1 \<and>
      freed_runtimes w = [1, 1] \<and> faults w = [Runtime_Freed_Again 1])"
  by (simp add: move_and_destroy_def Runtime_new_def Runtime_move_def Runtime_dtor_def
      JS_NewRuntime_def JS_FreeRuntime_def fresh_world_def)

lemma construct_registered:
  "closure_class w \<noteq> 0 \<Longrightarrow>
     closure_class (construct c w) = closure_class w \<and>
     class_array (construct c w) = class_array w \<and>
     js_class_id_alloc (construct c w) = js_class_id_alloc w"
  by (cases c)
     (simp_all add: construct_def Context_new_def Context_copy_def Context_from_def
        JS_NewContext_def JS_DupContext_def Let_def split: option.splits)

lemma fold_construct_registered:
  "closure_class w \<noteq> 0 \<Longrightarrow>
     closure_class (fold construct cs w) = closure_class w \<and>
     class_array (fold construct cs w) = class_array w \<and>
     js_class_id_alloc (fold construct cs w) = js_class_id_alloc w"
  by (induction cs arbitrary: w) (simp_all add: construct_registered)

lemma construct_first:
  "closure_class w = 0 \<Longrightarrow>
     closure_class (construct c w) = js_class_id_alloc w \<and>
     class_array (construct c w) =
       class_array w @ [(first_runtime w c, js_class_id_alloc w, closure_class_def)] \<and>
     js_class_id_alloc (construct c w) = js_class_id_alloc w + 1"
  by (cases c)
     (simp_all add: construct_def Context_new_def Context_copy_def Context_from_def
        JS_NewContext_def JS_DupContext_def JS_NewClassID_def JS_NewClass_def
        JS_GetRuntime_def first_runtime_def Let_def split: option.splits)

text \<open>
  C8. On a thread whose class-id variable is still 0, over an engine that never hands out
  the id 0: after any run of context constructions that has at least one element, the
  carrier class has been registered exactly once, by the first construction, with the
  finalizer and the mark callback, under the one id allocated; the later constructions
  add no registration and allocate no id.
\<close>

theorem closure_class_registered_once:
  assumes "closure_class w = 0" and "0 < js_class_id_alloc w"
  shows "class_array (fold construct (c # cs) w) =
           class_array w @ [(first_runtime w c, js_class_id_alloc w, closure_class_def)]
         \<and> js_class_id_alloc (fold construct (c # cs) w) = js_class_id_alloc w + 1
         \<and> closure_class (fold construct (c # cs) w) = js_class_id_alloc w
         \<and> class_array (fold construct (c # cs) w) = class_array (construct c w)
         \<and> js_class_id_alloc (fold construct (c # cs) w) = js_class_id_alloc (construct c w)"
proof -
  have first: "closure_class (construct c w) = js_class_id_alloc w"
    "class_array (construct c w) =
       class_array w @ [(first_runtime w c, js_class_id_alloc w, closure_class_def)]"
    "js_class_id_alloc (construct c w) = js_class_id_alloc w + 1"
    using construct_first [OF assms(1)] by simp_all
  from first(1) assms(2) have "closure_class (construct c w) \<noteq> 0" by simp
  from fold_construct_registered [OF this, of cs] first show ?thesis by simp
qed

theorem closure_class_registered_once_witness:
  "closure_class fresh_world = 0 \<and> 0 < js_class_id_alloc fresh_world \<and>
   class_array
     (fold construct
        [From_Runtime \<lparr>m_runtime = 1\<rparr>, Copy_Of \<lparr>c_context = 1\<rparr>,
         From_Runtime \<lparr>m_runtime = 2\<rparr>] fresh_world) =
     [(1, 56, closure_class_def)]"
proof -
  have a: "closure_class fresh_world = 0" by (simp add: fresh_world_def)
  have b: "0 < js_class_id_alloc fresh_world"
    by (simp add: fresh_world_def JS_CLASS_INIT_COUNT_def)
  show ?thesis
    using a b closure_class_registered_once [OF a b, of "From_Runtime \<lparr>m_runtime = 1\<rparr>"
        "[Copy_Of \<lparr>c_context = 1\<rparr>, From_Runtime \<lparr>m_runtime = 2\<rparr>]"]
    by (simp add: first_runtime_def fresh_world_def JS_CLASS_INIT_COUNT_def)
qed

section \<open>The result protocol of the conversions\<close>

lemma Exception_of_value [simp]: "fst (Exception_of w value) = Exception value"
  by (simp add: Exception_of_def split_beta)

lemma current_exception_Exception_of [simp]:
  "current_exception (snd (Exception_of w value)) = current_exception w"
  by (simp add: Exception_of_def split_beta)

lemma get_exception_value:
  "fst (get_exception w this) =
     Exception \<lparr>m_context = c_context this, m_value = current_exception w\<rparr>"
  by (simp add: get_exception_def JS_GetException_def Value_new_def)

lemma get_exception_clears:
  "current_exception (snd (get_exception w this)) = JS_NULL"
  by (simp add: get_exception_def JS_GetException_def)

lemma Result_of_Exception_value [simp]: "fst (Result_of_Exception w e) = Inl e"
  by (cases e) (simp add: Result_of_Exception_def split_beta)

lemma current_exception_Result_of_Exception [simp]:
  "current_exception (snd (Result_of_Exception w e)) = current_exception w"
  by (simp add: Result_of_Exception_def split_beta)

lemma failure_branch:
  "follows_protocol True value w1 this
     (Result_of_Exception (snd (get_exception w1 this)) (fst (get_exception w1 this)))"
  by (simp add: follows_protocol_def get_exception_value get_exception_clears)

lemma success_branch: "follows_protocol False value w1 this (Inr value, w1)"
  by (simp add: follows_protocol_def)

text \<open>
  C4. Whatever the engine coercion does, each of the eight conversions returns the
  exception case exactly when the coercion reported -1; the exception is then the value
  that was pending when the coercion returned, and no exception is pending afterwards;
  otherwise the result is the converted value, and the state is the one the coercion
  left.
\<close>

theorem conversions_follow_result_protocol:
  "(let (result, w1) = ToBool w (c_context this) (m_value val)
    in follows_protocol (result = - 1) (result \<noteq> 0) w1 this (to_bool ToBool w this val)) \<and>
   (let (result, value, w1) = ToInt32 w (c_context this) (m_value val)
    in follows_protocol (result = - 1) value w1 this (to_int32 ToInt32 w this val)) \<and>
   (let (result, value, w1) = ToUint32 w (c_context this) (m_value val)
    in follows_protocol (result = - 1) value w1 this (to_uint32 ToUint32 w this val)) \<and>
   (let (result, value, w1) = ToInt64 w (c_context this) (m_value val)
    in follows_protocol (result = - 1) value w1 this (to_int64 ToInt64 w this val)) \<and>
   (let (result, value, w1) = ToIndex w (c_context this) (m_value val)
    in follows_protocol (result = - 1) value w1 this (to_index ToIndex w this val)) \<and>
   (let (result, value, w1) = ToFloat64 w (c_context this) (m_value val)
    in follows_protocol (result = - 1) value w1 this (to_float64 ToFloat64 w this val)) \<and>
   (let (result, value, w1) = ToBigInt64 w (c_context this) (m_value val)
    in follows_protocol (result = - 1) value w1 this (to_bigint64 ToBigInt64 w this val)) \<and>
   (let (result, value, w1) = ToInt64Ext w (c_context this) (m_value val)
    in follows_protocol (result = - 1) value w1 this (to_int64_ext ToInt64Ext w this val))"
proof (intro conjI)
  show "let (result, w1) = ToBool w (c_context this) (m_value val)
    in follows_protocol (result = - 1) (result \<noteq> 0) w1 this (to_bool ToBool w this val)"
    by (simp add: failure_branch success_branch to_bool_def split_beta Let_def)
  show "let (result, value, w1) = ToInt32 w (c_context this) (m_value val)
    in follows_protocol (result = - 1) value w1 this (to_int32 ToInt32 w this val)"
    by (simp add: failure_branch success_branch to_int32_def split_beta Let_def)
  show "let (result, value, w1) = ToUint32 w (c_context this) (m_value val)
    in follows_protocol (result = - 1) value w1 this (to_uint32 ToUint32 w this val)"
    by (simp add: failure_branch success_branch to_uint32_def split_beta Let_def)
  show "let (result, value, w1) = ToInt64 w (c_context this) (m_value val)
    in follows_protocol (result = - 1) value w1 this (to_int64 ToInt64 w this val)"
    by (simp add: failure_branch success_branch to_int64_def split_beta Let_def)
  show "let (result, value, w1) = ToIndex w (c_context this) (m_value val)
    in follows_protocol (result = - 1) value w1 this (to_index ToIndex w this val)"
    by (simp add: failure_branch success_branch to_index_def split_beta Let_def)
  show "let (result, value, w1) = ToFloat64 w (c_context this) (m_value val)
    in follows_protocol (result = - 1) value w1 this (to_float64 ToFloat64 w this val)"
    by (simp add: failure_branch success_branch to_float64_def split_beta Let_def)
  show "let (result, value, w1) = ToBigInt64 w (c_context this) (m_value val)
    in follows_protocol (result = - 1) value w1 this (to_bigint64 ToBigInt64 w this val)"
    by (simp add: failure_branch success_branch to_bigint64_def split_beta Let_def)
  show "let (result, value, w1) = ToInt64Ext w (c_context this) (m_value val)
    in follows_protocol (result = - 1) value w1 this (to_int64_ext ToInt64Ext w this val)"
    by (simp add: failure_branch success_branch to_int64_ext_def split_beta Let_def)
qed

theorem conversions_follow_result_protocol_witness:
  "to_bool (\<lambda>w c v. (1, w)) unconvertible_world \<lparr>c_context = 1\<rparr> unconvertible_handle =
     (Inr True, unconvertible_world) \<and>
   fst (to_int32 JS_ToInt32 unconvertible_world \<lparr>c_context = 1\<rparr> unconvertible_handle) =
     Inl (Exception \<lparr>m_context = 1, m_value = JS_OBJECT 1\<rparr>) \<and>
   current_exception
     (snd (to_int32 JS_ToInt32 unconvertible_world \<lparr>c_context = 1\<rparr> unconvertible_handle)) =
     JS_NULL \<and>
   to_int64 (\<lambda>w c v. (0, 7, w)) unconvertible_world \<lparr>c_context = 1\<rparr> unconvertible_handle =
     (Inr 7, unconvertible_world)"
  using conversions_follow_result_protocol
    [of "\<lambda>w c v. (1, w)" unconvertible_world "\<lparr>c_context = 1\<rparr>" unconvertible_handle
        JS_ToInt32 JS_ToUint32 "\<lambda>w c v. (0, 7, w)" "\<lambda>w c v. (0, 7, w)"
        "\<lambda>w c v. (0, 0 :: int, w)" "\<lambda>w c v. (0, 7, w)" "\<lambda>w c v. (0, 7, w)"]
  by (simp add: follows_protocol_def JS_ToInt32_def JS_ToUint32_def to_number_def
      unconvertible_world_def unconvertible_handle_def fresh_world_def
      JS_ThrowTypeError_def JS_Throw_def new_instance_def)

section \<open>A failed conversion consumes the pending exception\<close>

lemma current_exception_JS_ThrowTypeError:
  "current_exception (JS_ThrowTypeError w) = JS_OBJECT (next_addr w)"
  by (simp add: JS_ThrowTypeError_def JS_Throw_def new_instance_def Let_def)

lemma to_int32_failure:
  assumes "isl (fst (to_int32 JS_ToInt32 w this val))"
  shows "to_number w (m_value val) = None"
    and "to_int32 JS_ToInt32 w this val =
           Result_of_Exception (snd (get_exception (JS_ThrowTypeError w) this))
             (fst (get_exception (JS_ThrowTypeError w) this))"
  using assms
  by (auto simp: to_int32_def JS_ToInt32_def split_beta split: option.splits)

text \<open>
  C6 (as stated, fails on the code). The coercion of an object with no numeric conversion
  yields the exception case, and the fetch made right after it finds nothing pending: the
  conversion has already fetched the exception to return it.
\<close>

theorem fetch_after_failed_to_int32_is_empty:
  "isl (fst (to_int32 JS_ToInt32 unconvertible_world \<lparr>c_context = 1\<rparr> unconvertible_handle)) \<and>
   fst (get_exception
          (snd (to_int32 JS_ToInt32 unconvertible_world \<lparr>c_context = 1\<rparr> unconvertible_handle))
          \<lparr>c_context = 1\<rparr>) =
     Exception \<lparr>m_context = 1, m_value = JS_NULL\<rparr>"
  by (simp add: split_beta to_int32_def JS_ToInt32_def to_number_def unconvertible_world_def
      unconvertible_handle_def fresh_world_def get_exception_value get_exception_clears)

text \<open>
  C6 (amended). When \<open>to_int32\<close> over the engine's coercion yields the exception case, the
  exception carried in the result is a non-empty error value, the error object the engine
  left pending, and that fetch consumed it: a pending-exception fetch made right after the
  conversion yields the empty state, and so does a second one.
\<close>

theorem failed_to_int32_carries_the_exception:
  assumes "isl (fst (to_int32 JS_ToInt32 w this val))"
  shows "fst (to_int32 JS_ToInt32 w this val) =
           Inl (Exception \<lparr>m_context = c_context this, m_value = JS_OBJECT (next_addr w)\<rparr>)
         \<and> fst (get_exception (snd (to_int32 JS_ToInt32 w this val)) this) =
           Exception \<lparr>m_context = c_context this, m_value = JS_NULL\<rparr>
         \<and> fst (get_exception
                  (snd (get_exception (snd (to_int32 JS_ToInt32 w this val)) this)) this) =
           Exception \<lparr>m_context = c_context this, m_value = JS_NULL\<rparr>"
  by (simp add: to_int32_failure(2) [OF assms] get_exception_value get_exception_clears
      current_exception_JS_ThrowTypeError)

theorem failed_to_int32_carries_the_exception_witness:
  "isl (fst (to_int32 JS_ToInt32 unconvertible_world \<lparr>c_context = 1\<rparr> unconvertible_handle)) \<and>
   fst (to_int32 JS_ToInt32 unconvertible_world \<lparr>c_context = 1\<rparr> unconvertible_handle) =
     Inl (Exception \<lparr>m_context = 1, m_value = JS_OBJECT 1\<rparr>) \<and>
   fst (get_exception
          (snd (to_int32 JS_ToInt32 unconvertible_world \<lparr>c_context = 1\<rparr> unconvertible_handle))
          \<lparr>c_context = 1\<rparr>) =
     Exception \<lparr>m_context = 1, m_value = JS_NULL\<rparr>"
proof -
  have a: "isl (fst (to_int32 JS_ToInt32 unconvertible_world \<lparr>c_context = 1\<rparr>
                       unconvertible_handle))"
    by (simp add: split_beta to_int32_def JS_ToInt32_def to_number_def unconvertible_world_def
        unconvertible_handle_def fresh_world_def)
  show ?thesis
    using a failed_to_int32_carries_the_exception [OF a]
    by (simp add: unconvertible_world_def fresh_world_def)
qed

section \<open>Strings survive the round trip\<close>

lemma new_string_value:
  "new_string w this s = (\<lparr>m_context = c_context this, m_value = JS_STRING s\<rparr>, w)"
  by (simp add: new_string_def JS_NewStringLen_def c_str_def Value_new_def)

lemma new_atom_string_stops_at_zero:
  "fst (new_atom_string w this [CHR ''a'', CHR 0x00, CHR ''b'']) =
     \<lparr>m_context = c_context this, m_value = JS_STRING ''a''\<rparr>"
  by (simp add: new_atom_string_def JS_NewAtomString_def c_str_def c_string_def Value_new_def)

text \<open>
  C7. A string made by \<open>new_string\<close> from any byte sequence, zero bytes included, is read
  back by \<open>to_std_string\<close> as the same sequence, in whatever state of the same or another
  context the reading takes place, and the reading leaves that state as it was.
\<close>

theorem string_round_trip:
  "to_std_string w' this' (fst (new_string w this s)) = (s, w')"
  by (simp add: new_string_value to_std_string_def JS_ToCStringLen_def to_text_def
      JS_FreeCString_def c_str_def)

section \<open>Writes are gated by extensibility\<close>

text \<open>
  The gate itself: both overloads answer with the receiver's extensibility, and a refused
  write leaves the engine state as it was.
\<close>

lemma set_property_answer:
  "fst (set_property w this name val) = is_extensible w this"
  "fst (set_property_idx w this idx val) = is_extensible w this"
  by (simp_all add: set_property_def set_property_idx_def split_beta)

lemma set_property_refused:
  "\<not> is_extensible w this \<Longrightarrow>
     set_property w this name val = (False, w) \<and> set_property_idx w this idx val = (False, w)"
  by (simp add: set_property_def set_property_idx_def)

lemma extensible_is_object:
  assumes "is_extensible w this"
  obtains a ob where "m_value this = JS_OBJECT a" "map_of (heap w) a = Some ob" "extensible ob"
  using assms
  by (auto simp: is_extensible_def JS_IsExtensible_def
      split: JSValue.splits option.splits if_splits)

text \<open>
  A write of a property the extensible receiver does not have yet puts the value into the
  state that is returned: under the index for the index overload, and for the name
  overload under the part of the name before its first zero byte.
\<close>

lemma set_property_idx_adds:
  assumes "is_extensible w this" and "own_property w (m_value this) (Index idx) = None"
  shows "own_property (snd (set_property_idx w this idx val)) (m_value this) (Index idx) =
           Some (m_value val)"
proof -
  from assms(1) obtain a ob where
    o: "m_value this = JS_OBJECT a" "map_of (heap w) a = Some ob" "extensible ob"
    by (rule extensible_is_object)
  with assms show ?thesis
    by (simp add: set_property_idx_def JS_SetPropertyUint32_def JS_SetProperty_def
        write_slot_def split_beta own_property_def)
qed

lemma set_property_adds:
  assumes "is_extensible w this"
    and "own_property w (m_value this) (Name (c_string (c_str name))) = None"
  shows "own_property (snd (set_property w this name val)) (m_value this)
           (Name (c_string (c_str name))) = Some (m_value val)"
proof -
  from assms(1) obtain a ob where
    o: "m_value this = JS_OBJECT a" "map_of (heap w) a = Some ob" "extensible ob"
    by (rule extensible_is_object)
  with assms show ?thesis
    by (simp add: set_property_def JS_SetPropertyStr_def JS_SetProperty_def
        write_slot_def split_beta own_property_def)
qed

lemma c_string_c_str: "CHR 0x00 \<notin> set s \<Longrightarrow> c_string (c_str s) = s"
  by (induction s) (auto simp: c_string_def c_str_def)

text \<open>
  C5 (fails on the code). The receiver is extensible and \<open>set_property\<close> of the name
  \<^verbatim>\<open>a\0b\<close> returns true, but in the state it returns the receiver has no property of
  that name: \<open>has_property\<close> denies it and \<open>get_property\<close> returns none. The value was
  written under the name \<^verbatim>\<open>a\<close>, since \<open>set_property\<close> hands the engine the C string of
  the name, which ends at the first zero byte, where \<open>has_property\<close> hands it the name
  with its length.
\<close>

theorem set_property_cuts_name_at_zero_byte:
  "is_extensible open_world receiver \<and>
   fst after_zero_byte_write \<and>
   own_property (snd after_zero_byte_write) (m_value receiver) (Name zero_byte_name) = None \<and>
   \<not> has_property (snd after_zero_byte_write) receiver zero_byte_name \<and>
   fst (get_property (snd after_zero_byte_write) receiver zero_byte_name) = None \<and>
   own_property (snd after_zero_byte_write) (m_value receiver) (Name ''a'') = Some (JS_INT 5) \<and>
   fst (get_property (snd after_zero_byte_write) receiver ''a'') =
     Some \<lparr>m_context = 1, m_value = JS_INT 5\<rparr>"
  by (simp add: after_zero_byte_write_def zero_byte_name_def open_world_def receiver_def
      new_object_def JS_NewObject_def new_instance_def fresh_world_def Value_new_def
      new_int32_def set_property_def is_extensible_def JS_IsExtensible_def
      JS_SetPropertyStr_def JS_SetProperty_def write_slot_def c_str_def c_string_def
      has_property_def JS_NewAtomLen_def JS_HasProperty_def own_property_def
      get_property_def JS_GetPropertyStr_def JS_GetProperty_def optional_of_def
      Value_copy_def Value_dtor_def JS_DupValue_def JS_FreeValue_def free_values.simps)

section \<open>Indexed reads\<close>

lemma optional_of_engaged: "fst (optional_of w v) = Some v"
  by (simp add: optional_of_def split_beta)

lemma get_property_engaged:
  "has_property w this p \<Longrightarrow> \<exists>l. fst (get_property w this p) = Some l"
  by (simp add: get_property_def split_beta optional_of_engaged)

text \<open>
  What the indexed read does in every state: it returns a value exactly when the receiver
  has a \<^verbatim>\<open>length\<close> property and the index is below the 32-bit coercion of the receiver.
\<close>

lemma get_property_idx_bound:
  "fst (get_property_idx w this idx) \<noteq> None \<longleftrightarrow>
     has_property w this ''length'' \<and>
     idx < fst (snd (JS_ToUint32 (snd (get_property w this ''length'')) (m_context this)
                       (m_value this)))"
proof (cases "has_property w this ''length''")
  case False
  then show ?thesis by (simp add: get_property_idx_def)
next
  case True
  then obtain l where "fst (get_property w this ''length'') = Some l"
    using get_property_engaged by blast
  with True show ?thesis
    by (auto simp: get_property_idx_def split_beta optional_of_engaged Let_def not_le)
qed

text \<open>
  C3 (fails on the code). The array-like object exposes the numeric \<^verbatim>\<open>length\<close> 3 and has
  elements at 0, 1 and 2, and the indexed read still returns none at each of them: the
  bound is the coercion of the receiver itself, which is 0 for this object, where it
  should be the coercion of its \<^verbatim>\<open>length\<close>.
\<close>

theorem get_property_idx_bound_is_not_length:
  "has_property array_like receiver ''length'' \<and>
   fst (get_property array_like receiver ''length'') =
     Some \<lparr>m_context = 1, m_value = JS_INT 3\<rparr> \<and>
   own_property array_like (m_value receiver) (Index 0) = Some (JS_INT 10) \<and>
   fst (JS_ToUint32 array_like 1 (m_value receiver)) = 0 \<and>
   fst (snd (JS_ToUint32 array_like 1 (m_value receiver))) = 0 \<and>
   fst (get_property_idx array_like receiver 0) = None \<and>
   fst (get_property_idx array_like receiver 1) = None \<and>
   fst (get_property_idx array_like receiver 2) = None"
  by (simp add: array_like_def open_world_def receiver_def new_object_def JS_NewObject_def
      new_instance_def fresh_world_def Value_new_def new_int32_def
      set_property_def set_property_idx_def is_extensible_def JS_IsExtensible_def
      JS_SetPropertyStr_def JS_SetPropertyUint32_def JS_SetProperty_def write_slot_def
      c_str_def c_string_def
      has_property_def JS_NewAtomLen_def JS_HasProperty_def own_property_def
      get_property_def get_property_idx_def JS_GetPropertyStr_def JS_GetPropertyUint32_def
      JS_GetProperty_def optional_of_def Value_copy_def Value_dtor_def JS_DupValue_def
      JS_FreeValue_def free_values.simps JS_ToUint32_def to_number_def)

section \<open>The reference handed to a write\<close>

text \<open>
  C10 (fails on the code). After \<^verbatim>\<open>obj.set_property(key, val)\<close>, by name or by index, the
  object \<open>val\<close> refers to has a count of 1 and two owners, the handle and the property.
  When \<open>val\<close> is destroyed the object is destroyed with it while the property still refers
  to it, and when \<open>obj\<close> is destroyed the engine releases that reference again, on an
  object that no longer exists.
\<close>

theorem set_property_shares_one_reference:
  "(case set_then_destroy False fresh_world of (obj, val, ok, w3, w4, w5) \<Rightarrow>
      ok \<and> m_value val = JS_OBJECT 1 \<and>
      own_property w3 (m_value obj) (Name ''x'') = Some (JS_OBJECT 1) \<and>
      count_of w3 (JS_OBJECT 1) = Some 1 \<and>
      count_of w4 (JS_OBJECT 1) = None \<and>
      own_property w4 (m_value obj) (Name ''x'') = Some (JS_OBJECT 1) \<and>
      faults w4 = [] \<and>
      faults w5 = [Use_After_Free 1]) \<and>
   (case set_then_destroy True fresh_world of (obj, val, ok, w3, w4, w5) \<Rightarrow>
      ok \<and> m_value val = JS_OBJECT 1 \<and>
      own_property w3 (m_value obj) (Index 0) = Some (JS_OBJECT 1) \<and>
      count_of w3 (JS_OBJECT 1) = Some 1 \<and>
      count_of w4 (JS_OBJECT 1) = None \<and>
      own_property w4 (m_value obj) (Index 0) = Some (JS_OBJECT 1) \<and>
      faults w4 = [] \<and>
      faults w5 = [Use_After_Free 1])"
  by (simp add: set_then_destroy_def new_object_def JS_NewObject_def
      new_instance_def fresh_world_def Value_new_def
      set_property_def set_property_idx_def is_extensible_def JS_IsExtensible_def
      JS_SetPropertyStr_def JS_SetPropertyUint32_def JS_SetProperty_def write_slot_def
      c_str_def c_string_def own_property_def count_of_def
      Value_dtor_def JS_FreeValue_def free_values.simps run_finalizer_def children_def)

section \<open>The life of a registered closure\<close>

text \<open>
  C1 (fails on the code). The call through the function value runs the registered closure
  once, with the receiver and the argument list of the call, and returns its result. After
  the function value has been released and a collection pass has run, the closure has not
  been deleted and its carrier is still on the heap with a count of 1: the reference that
  \<open>new_c_function\<close> got from the engine when it created the carrier is never released, so
  the carrier's finalizer does not run.
\<close>

theorem registered_closure_is_never_finalized:
  "(case closure_life fresh_world of (f, this_obj, r, w5, w9) \<Rightarrow>
      m_value f = JS_OBJECT 1 \<and> m_value this_obj = JS_OBJECT 2 \<and>
      m_value r = JS_INT 42 \<and>
      invoked w5 = [(0, JS_OBJECT 2, [JS_INT 7], 0)] \<and>
      invoked w9 = [(0, JS_OBJECT 2, [JS_INT 7], 0)] \<and>
      count_of w9 (JS_OBJECT 1) = None \<and>
      count_of w9 (JS_OBJECT 2) = None \<and>
      count_of w9 (JS_OBJECT 0) = Some 1 \<and>
      JS_GetOpaque w9 (JS_OBJECT 0) (closure_class w9) = Some 0 \<and>
      map fst (closures w9) = [0] \<and>
      deleted w9 = [] \<and>
      faults w9 = [])"
  by code_simp


end
